theory Spec2Isabelle
  imports Complex_Main "HOL-Library.AList"
begin

section \<open>Calendar dates (the runtime's Date and the date-fns helpers the code calls)\<close>

text \<open>
  A calendar date: year, month and day of month. The month is an enumeration, so
  \<open>getMonth\<close> is always one of 0..11, as in the runtime. The getters of date-fns
  (\<open>getMonth\<close>, \<open>getYear\<close>, \<open>getQuarter\<close>) read the local calendar date of a \<open>Date\<close>
  object; the instant that the object holds, with its time of day and the time zone, is
  the type \<open>Moment\<close> further down.
\<close>

datatype month = Jan | Feb | Mar | Apr | May | Jun | Jul | Aug | Sep | Oct | Nov | Dec

datatype Date = Date (year_of: int) (month_of: month) (day_of: nat)

fun month_index :: "month \<Rightarrow> nat" where
  "month_index Jan = 0"
| "month_index Feb = 1"
| "month_index Mar = 2"
| "month_index Apr = 3"
| "month_index May = 4"
| "month_index Jun = 5"
| "month_index Jul = 6"
| "month_index Aug = 7"
| "month_index Sep = 8"
| "month_index Oct = 9"
| "month_index Nov = 10"
| "month_index Dec = 11"

definition month_of_index :: "nat \<Rightarrow> month" where
  "month_of_index n = [Jan, Feb, Mar, Apr, May, Jun, Jul, Aug, Sep, Oct, Nov, Dec] ! (n mod 12)"

definition getMonth :: "Date \<Rightarrow> nat" where
  "getMonth d = month_index (month_of d)"

definition getYear :: "Date \<Rightarrow> int" where
  "getYear d = year_of d"

text \<open>date-fns \<open>getQuarter\<close>: \<open>Math.trunc(getMonth(d) / 3) + 1\<close>.\<close>

definition getQuarter :: "Date \<Rightarrow> nat" where
  "getQuarter d = getMonth d div 3 + 1"

definition isLeapYear :: "int \<Rightarrow> bool" where
  "isLeapYear y = (y mod 4 = 0 \<and> (y mod 100 \<noteq> 0 \<or> y mod 400 = 0))"

fun daysInMonth :: "int \<Rightarrow> month \<Rightarrow> nat" where
  "daysInMonth y Feb = (if isLeapYear y then 29 else 28)"
| "daysInMonth y Apr = 30"
| "daysInMonth y Jun = 30"
| "daysInMonth y Sep = 30"
| "daysInMonth y Nov = 30"
| "daysInMonth y m = 31"

text \<open>
  date-fns \<open>addMonths(date, amount)\<close>: an amount of 0 returns the date as it is; otherwise
  the library moves to the last day of the month that lies \<open>amount\<close> months away (the
  runtime's \<open>setMonth(getMonth() + amount + 1, 0)\<close>, which carries a month outside 0..11
  into the year) and keeps that day when the original day of month is not before it, the
  original day of month otherwise.
\<close>

definition addMonths :: "Date \<Rightarrow> int \<Rightarrow> Date" where
  "addMonths d amount =
     (if amount = 0 then d
      else
        let total = int (getMonth d) + amount;
            y = getYear d + total div 12;
            m = month_of_index (nat (total mod 12));
            daysInTarget = daysInMonth y m
        in if day_of d \<ge> daysInTarget then Date y m daysInTarget
           else Date y m (day_of d))"

text \<open>Decimal digits of a natural number, as \<open>Number.prototype.toString\<close> prints them.\<close>

fun digit_char :: "nat \<Rightarrow> char" where
  "digit_char n = ''0123456789'' ! (n mod 10)"

fun toString :: "nat \<Rightarrow> string" where
  "toString n = (if n < 10 then [digit_char n] else toString (n div 10) @ [digit_char n])"

text \<open>The equation of \<open>toString\<close> is unfolded only where a proof asks for it.\<close>

declare toString.simps [simp del]

text \<open>date-fns \<open>addLeadingZeros\<close> for a non-negative number: \<open>padStart(targetLength, "0")\<close>.\<close>

definition addLeadingZeros :: "nat \<Rightarrow> nat \<Rightarrow> string" where
  "addLeadingZeros n targetLength =
     replicate (targetLength - length (toString n)) (CHR ''0'') @ toString n"

text \<open>
  date-fns \<open>format(d, 'MM/yyyy')\<close>: the month number (1..12) on two digits, a slash, and
  the year on at least four digits; for a year that is not positive the token \<open>y\<close> prints
  \<open>1 - year\<close> (the year of the era).
\<close>

definition format_MM_yyyy :: "Date \<Rightarrow> string" where
  "format_MM_yyyy d =
     addLeadingZeros (getMonth d + 1) 2 @ ''/'' @
     addLeadingZeros (nat (if getYear d > 0 then getYear d else 1 - getYear d)) 4"

section \<open>Instants, the local time zone and the parser of date strings\<close>

text \<open>
  The runtime's \<open>Date\<close> object is an instant. It is represented here by what the local
  getters read from it: the local calendar date and the milliseconds since local
  midnight. The local time zone is a fixed offset from UTC, in minutes east of UTC
  (\<open>-180\<close> for America/Sao\_Paulo); changes of the offset over the year are not modelled.
\<close>

datatype Moment = Moment (local_date: Date) (ms_of_day: int)

definition nextDay :: "Date \<Rightarrow> Date" where
  "nextDay d =
     (if day_of d < daysInMonth (year_of d) (month_of d)
        then Date (year_of d) (month_of d) (day_of d + 1)
      else if month_of d = Dec then Date (year_of d + 1) Jan 1
      else Date (year_of d) (month_of_index (month_index (month_of d) + 1)) 1)"

definition prevDay :: "Date \<Rightarrow> Date" where
  "prevDay d =
     (if 1 < day_of d then Date (year_of d) (month_of d) (day_of d - 1)
      else if month_of d = Jan then Date (year_of d - 1) Dec 31
      else let m = month_of_index (month_index (month_of d) - 1)
           in Date (year_of d) m (daysInMonth (year_of d) m))"

definition shiftDays :: "int \<Rightarrow> Date \<Rightarrow> Date" where
  "shiftDays k d = (if 0 \<le> k then (nextDay ^^ nat k) d else (prevDay ^^ nat (- k)) d)"

text \<open>A calendar date and a time of day, moved by a number of milliseconds.\<close>

definition shiftMs :: "int \<Rightarrow> Moment \<Rightarrow> Moment" where
  "shiftMs delta t =
     (let total = ms_of_day t + delta
      in Moment (shiftDays (total div 86400000) (local_date t)) (total mod 86400000))"

definition date_le :: "Date \<Rightarrow> Date \<Rightarrow> bool" where
  "date_le a b =
     (year_of a < year_of b
      \<or> (year_of a = year_of b
          \<and> (month_index (month_of a) < month_index (month_of b)
              \<or> (month_of a = month_of b \<and> day_of a \<le> day_of b))))"

text \<open>
  The runtime holds instants of at most 8.64e15 milliseconds from 1 January 1970 UTC, that
  is from 20 April -271821 to 13 September 275760, both at midnight UTC; any other time
  value is the Invalid Date. \<open>inRange offset t\<close> says that the local moment \<open>t\<close> is such an
  instant.
\<close>

definition inRange :: "int \<Rightarrow> Moment \<Rightarrow> bool" where
  "inRange offset t =
     (let utc = shiftMs (- (offset * 60000)) t
      in date_le (Date (- 271821) Apr 20) (local_date utc)
         \<and> date_le (local_date utc) (Date 275760 Sep 13)
         \<and> (local_date utc = Date 275760 Sep 13 \<longrightarrow> ms_of_day utc = 0))"

text \<open>
  A date-only string \<open>YYYY-MM-DD\<close> that names a calendar date: the runtime reads it as
  midnight UTC of that date.
\<close>

definition digit_value :: "char \<Rightarrow> nat option" where
  "digit_value c = (if c \<in> set ''0123456789'' then Some (of_char c - 48) else None)"

fun digits_value :: "nat \<Rightarrow> string \<Rightarrow> nat option" where
  "digits_value acc [] = Some acc"
| "digits_value acc (c # cs) =
     (case digit_value c of None \<Rightarrow> None | Some v \<Rightarrow> digits_value (10 * acc + v) cs)"

definition parseDateOnly :: "string \<Rightarrow> Date option" where
  "parseDateOnly s =
     (if length s = 10 \<and> s ! 4 = CHR ''-'' \<and> s ! 7 = CHR ''-''
      then (case (digits_value 0 (take 4 s), digits_value 0 (take 2 (drop 5 s)),
                  digits_value 0 (drop 8 s)) of
              (Some y, Some m, Some d) \<Rightarrow>
                if 1 \<le> m \<and> m \<le> 12 \<and> 1 \<le> d \<and> d \<le> daysInMonth (int y) (month_of_index (m - 1))
                then Some (Date (int y) (month_of_index (m - 1)) d)
                else None
            | _ \<Rightarrow> None)
      else None)"

text \<open>
  \<open>new Date(s)\<close>. For a date-only string the instant is midnight UTC of the date written,
  read in local time. What the runtime makes of any other string (other ISO forms, the
  formats each engine accepts besides) is the parameter \<open>otherwise\<close>, with \<open>None\<close> for the
  Invalid Date.
\<close>

definition newDate :: "int \<Rightarrow> (string \<Rightarrow> Moment option) \<Rightarrow> string \<Rightarrow> Moment option" where
  "newDate offset otherwise s =
     (case parseDateOnly s of
        Some utc \<Rightarrow> Some (shiftMs (offset * 60000) (Moment utc 0))
      | None \<Rightarrow> otherwise s)"

section \<open>The recurrence resolver (part\_000, getEndDate)\<close>

datatype error = RangeError

text \<open>
  date-fns \<open>addMonths\<close> on an instant, step by step as the library does it: the copy
  \<open>endOfDesiredMonth\<close> is set to the last day of the month \<open>amount\<close> months away
  (\<open>setMonth(getMonth() + amount + 1, 0)\<close>) and returned when the day of month is not
  before it; otherwise the date itself gets the year, the month and the old day of month
  (\<open>setFullYear\<close>). Each setter keeps the local time of day, and a result outside the
  range of the runtime is the Invalid Date (\<open>None\<close>), whose day of month is NaN, so that
  the second branch is taken and yields the Invalid Date as well.
\<close>

definition addMonthsMoment :: "int \<Rightarrow> Moment \<Rightarrow> int \<Rightarrow> Moment option" where
  "addMonthsMoment offset t amount =
     (if amount = 0 then Some t
      else
        let d = local_date t;
            total = int (getMonth d) + amount;
            y = getYear d + total div 12;
            m = month_of_index (nat (total mod 12));
            endOfDesiredMonth = Moment (Date y m (daysInMonth y m)) (ms_of_day t)
        in if \<not> inRange offset endOfDesiredMonth then None
           else if day_of d \<ge> daysInMonth y m then Some endOfDesiredMonth
           else if inRange offset (Moment (Date y m (day_of d)) (ms_of_day t))
             then Some (Moment (Date y m (day_of d)) (ms_of_day t))
           else None)"

text \<open>
  \<open>format(addMonths(new Date(startDate), installments - 1), 'MM/yyyy')\<close>; \<open>format\<close> throws
  a RangeError on the Invalid Date.
\<close>

definition getEndDate ::
  "int \<Rightarrow> (string \<Rightarrow> Moment option) \<Rightarrow> string \<Rightarrow> int \<Rightarrow> error + string" where
  "getEndDate offset otherwise startDate installments =
     (case newDate offset otherwise startDate of
        None \<Rightarrow> Inl RangeError
      | Some t \<Rightarrow>
          (case addMonthsMoment offset t (installments - 1) of
             None \<Rightarrow> Inl RangeError
           | Some r \<Rightarrow> Inr (format_MM_yyyy (local_date r))))"

section \<open>Numbers of the runtime (binary64)\<close>

text \<open>
  A finite number of the runtime is a rational; \<open>round64\<close> rounds a rational to the
  nearest binary64 value, ties to the even significand: 53 significant bits from the
  exponent \<open>ilog2\<close> of the value, and the fixed spacing \<open>2 powi (- 1074)\<close> below
  \<open>2 powi (- 1022)\<close>. The two zeros of binary64 are one value here, as they are under
  \<open>===\<close>.
\<close>

definition round_even :: "rat \<Rightarrow> int" where
  "round_even x =
     (let f = \<lfloor>x\<rfloor>; r = x - of_int f
      in if r < 1 / 2 then f else if 1 / 2 < r then f + 1 else if even f then f else f + 1)"

text \<open>The number of binary digits of a positive integer.\<close>

function bits :: "int \<Rightarrow> int" where
  "bits n = (if n \<le> 0 then 0 else 1 + bits (n div 2))"
  by pat_completeness auto
termination
  by (relation "measure nat") auto

declare bits.simps [simp del]

text \<open>The exponent of a positive rational: \<open>2 powi ilog2 x \<le> x < 2 powi (ilog2 x + 1)\<close>.\<close>

definition ilog2 :: "rat \<Rightarrow> int" where
  "ilog2 x =
     (let (p, q) = quotient_of x;
          e = bits p - bits q
      in if 2 powi e \<le> x then e else e - 1)"

definition round64 :: "rat \<Rightarrow> rat" where
  "round64 x =
     (if x = 0 then 0
      else let e = max (ilog2 \<bar>x\<bar>) (- 1022); q = 2 powi (e - 52)
           in of_int (round_even (x / q)) * q)"

datatype number = Finite rat | PosInfinity | NegInfinity | NaN

text \<open>
  The number that the runtime holds for a rational: for the decimal number of a JSON text,
  and for the exact result of an operation on two finite numbers. A rounded magnitude of
  \<open>2 ^ 1024\<close> or more is an infinity.
\<close>

definition number_of :: "rat \<Rightarrow> number" where
  "number_of x =
     (let r = round64 x
      in if 2 ^ 1024 \<le> r then PosInfinity
         else if r \<le> - (2 ^ 1024) then NegInfinity
         else Finite r)"

text \<open>\<open>a + b\<close>, \<open>a - b\<close> and \<open>a * b\<close> on numbers.\<close>

fun fadd :: "number \<Rightarrow> number \<Rightarrow> number" where
  "fadd (Finite a) (Finite b) = number_of (a + b)"
| "fadd NaN _ = NaN"
| "fadd _ NaN = NaN"
| "fadd PosInfinity NegInfinity = NaN"
| "fadd NegInfinity PosInfinity = NaN"
| "fadd PosInfinity _ = PosInfinity"
| "fadd NegInfinity _ = NegInfinity"
| "fadd _ PosInfinity = PosInfinity"
| "fadd _ NegInfinity = NegInfinity"

fun fneg :: "number \<Rightarrow> number" where
  "fneg (Finite a) = Finite (- a)"
| "fneg PosInfinity = NegInfinity"
| "fneg NegInfinity = PosInfinity"
| "fneg NaN = NaN"

definition fsub :: "number \<Rightarrow> number \<Rightarrow> number" where
  "fsub a b = fadd a (fneg b)"

fun fmul :: "number \<Rightarrow> number \<Rightarrow> number" where
  "fmul (Finite a) (Finite b) = number_of (a * b)"
| "fmul NaN _ = NaN"
| "fmul _ NaN = NaN"
| "fmul (Finite a) PosInfinity =
     (if a = 0 then NaN else if 0 < a then PosInfinity else NegInfinity)"
| "fmul (Finite a) NegInfinity =
     (if a = 0 then NaN else if 0 < a then NegInfinity else PosInfinity)"
| "fmul PosInfinity (Finite b) =
     (if b = 0 then NaN else if 0 < b then PosInfinity else NegInfinity)"
| "fmul NegInfinity (Finite b) =
     (if b = 0 then NaN else if 0 < b then NegInfinity else PosInfinity)"
| "fmul PosInfinity PosInfinity = PosInfinity"
| "fmul NegInfinity NegInfinity = PosInfinity"
| "fmul PosInfinity NegInfinity = NegInfinity"
| "fmul NegInfinity PosInfinity = NegInfinity"

section \<open>Data model (src/types.ts)\<close>

text \<open>
  The records hold the transactions and the summary as the JSON payload gives them: a
  currency amount is the decimal number of the text, a rational (\<^typ>\<open>rat\<close>). Two
  readings of the arithmetic are used below. \<open>calculateTaxes\<close>, \<open>projectionData\<close> and
  \<open>estimativaEm1Ano\<close> compute on the amounts exactly, so that every decimal literal of the
  source (\<open>0.075\<close>, \<open>908.85\<close>) has its exact value. \<open>categoryData\<close>, \<open>getPeriodData\<close> and
  \<open>projectionData64\<close> compute as the runtime does: a field is read as the nearest
  binary64 number (\<open>number_of\<close>) and every operation rounds. A number that counts (a loop
  index, a year, an installment count) is a \<^typ>\<open>nat\<close> or an \<^typ>\<open>int\<close>.
\<close>

datatype transaction_type = Income | Variable_income | Fixed_expense | Variable_expense

record Transaction =
  id_field :: int
  description :: string
  amount :: rat
  type :: transaction_type
  category :: string
  date :: string
  is_recurring :: bool
  installments :: "int option"
  start_date :: "string option"

record Summary =
  income :: rat
  variable_income :: rat
  fixed :: rat
  variable :: rat
  invested :: rat

section \<open>Category totals (part\_000, categoryData)\<close>

text \<open>
  The accumulator of the \<open>reduce\<close> is a plain object \<open>{}\<close>. Its own properties are kept
  as an association list in insertion order: a new key goes to the end, an existing key
  is overwritten in place; \<open>Object.entries\<close> lists them (the model lists them in
  insertion order; the runtime moves keys that are array indices to the front). A value
  is a number or a string; the text of a string is the engine's and is not kept.

  Reading a key that is not an own property finds the properties of \<open>Object.prototype\<close>:
  a function or an object, which is truthy and makes \<open>+\<close> a string concatenation.
  Assigning to \<open>__proto__\<close> calls the setter of the prototype, which ignores a string.
\<close>

datatype jsvalue = Num number | Str

record category_total =
  name :: string
  "value" :: jsvalue

definition objectPrototypeKeys :: "string list" where
  "objectPrototypeKeys =
     [''constructor'', ''__defineGetter__'', ''__defineSetter__'', ''hasOwnProperty'',
      ''__lookupGetter__'', ''__lookupSetter__'', ''isPrototypeOf'', ''propertyIsEnumerable'',
      ''toString'', ''valueOf'', ''__proto__'', ''toLocaleString'']"

text \<open>\<open>acc[k] || 0\<close>: 0 and NaN are falsy.\<close>

definition or0 :: "(string \<times> jsvalue) list \<Rightarrow> string \<Rightarrow> jsvalue" where
  "or0 acc k =
     (case map_of acc k of
        Some (Num v) \<Rightarrow> if v = Finite 0 \<or> v = NaN then Num (Finite 0) else Num v
      | Some Str \<Rightarrow> Str
      | None \<Rightarrow> if k \<in> set objectPrototypeKeys then Str else Num (Finite 0))"

text \<open>\<open>x + t.amount\<close>: a sum of numbers, or a string when \<open>x\<close> is not a number.\<close>

definition plus_amount :: "jsvalue \<Rightarrow> rat \<Rightarrow> jsvalue" where
  "plus_amount x a = (case x of Num v \<Rightarrow> Num (fadd v (number_of a)) | Str \<Rightarrow> Str)"

definition category_step ::
  "(string \<times> jsvalue) list \<Rightarrow> Transaction \<Rightarrow> (string \<times> jsvalue) list" where
  "category_step acc t =
     (if type t \<noteq> Income \<and> type t \<noteq> Variable_income
      then (if category t = ''__proto__'' then acc
            else AList.update (category t) (plus_amount (or0 acc (category t)) (amount t)) acc)
      else acc)"

definition categoryData :: "Transaction list \<Rightarrow> category_total list" where
  "categoryData transactions =
     map (\<lambda>(n, v). \<lparr>name = n, value = v\<rparr>) (foldl category_step [] transactions)"

section \<open>The six-month projection (part\_000, projectionData)\<close>

text \<open>
  The labels of the charts and reports are display strings (month names of the pt-BR
  locale, \<open>1\<ordmasculine> Trimestre\<close>, \<open>Ano 2025\<close>); each kind of label is a constructor here.
\<close>

datatype label_text =
    MMM month
  | MMMM month
  | Trimestre nat
  | Semestre nat
  | Ano int

record projection_point =
  month :: label_text
  balance :: rat

text \<open>\<open>xs.reduce((sum, t) => sum + t.amount, 0)\<close>\<close>

definition sum_amounts :: "Transaction list \<Rightarrow> rat" where
  "sum_amounts xs = foldl (\<lambda>s t. s + amount t) 0 xs"

text \<open>\<open>today\<close> is the value of \<open>new Date()\<close>.\<close>

definition projectionData :: "Date \<Rightarrow> Transaction list \<Rightarrow> Summary \<Rightarrow> projection_point list" where
  "projectionData today transactions summary =
     map (\<lambda>i.
       let month = addMonths today (int i);
           recurringExpenses = sum_amounts
             (filter (\<lambda>t. is_recurring t \<and> (type t = Fixed_expense \<or> type t = Variable_expense))
                transactions);
           recurringIncome = sum_amounts
             (filter (\<lambda>t. is_recurring t \<and> (type t = Income \<or> type t = Variable_income))
                transactions)
       in \<lparr>month = MMM (month_of month),
           balance = (recurringIncome - recurringExpenses) * (of_nat i + 1)
             + (Summary.income summary + variable_income summary - fixed summary - variable summary)\<rparr>)
       [0..<6]"

text \<open>The figure under "Estimativa em 1 Ano": \<open>projectionData[5].balance * 2\<close>.\<close>

definition estimativaEm1Ano :: "Date \<Rightarrow> Transaction list \<Rightarrow> Summary \<Rightarrow> rat" where
  "estimativaEm1Ano today transactions summary =
     balance (projectionData today transactions summary ! 5) * 2"

text \<open>The same two functions as the runtime computes them, in binary64.\<close>

record projection_point64 =
  month64 :: label_text
  balance64 :: number

definition sum_amounts64 :: "Transaction list \<Rightarrow> number" where
  "sum_amounts64 xs = foldl (\<lambda>s t. fadd s (number_of (amount t))) (Finite 0) xs"

definition projectionData64 ::
  "Date \<Rightarrow> Transaction list \<Rightarrow> Summary \<Rightarrow> projection_point64 list" where
  "projectionData64 today transactions summary =
     map (\<lambda>i.
       let month = addMonths today (int i);
           recurringExpenses = sum_amounts64
             (filter (\<lambda>t. is_recurring t \<and> (type t = Fixed_expense \<or> type t = Variable_expense))
                transactions);
           recurringIncome = sum_amounts64
             (filter (\<lambda>t. is_recurring t \<and> (type t = Income \<or> type t = Variable_income))
                transactions)
       in \<lparr>month64 = MMM (month_of month),
           balance64 =
             fadd (fmul (fsub recurringIncome recurringExpenses) (Finite (of_nat i + 1)))
               (fsub (fsub (fadd (number_of (Summary.income summary))
                                 (number_of (variable_income summary)))
                           (number_of (fixed summary)))
                     (number_of (variable summary)))\<rparr>)
       [0..<6]"

section \<open>The tax estimator (part\_000, calculateTaxes)\<close>

record taxes =
  inss :: rat
  irpf :: rat
  net :: rat

definition calculateTaxes :: "rat \<Rightarrow> taxes" where
  "calculateTaxes grossIncome =
     (let inss =
            (if grossIncome \<le> 1412 then grossIncome * 0.075
             else if grossIncome \<le> 2666.68 then (1412 * 0.075) + (grossIncome - 1412) * 0.09
             else if grossIncome \<le> 4000.03
               then (1412 * 0.075) + (1254.68 * 0.09) + (grossIncome - 2666.68) * 0.12
             else if grossIncome \<le> 7786.02
               then (1412 * 0.075) + (1254.68 * 0.09) + (1333.35 * 0.12)
                    + (grossIncome - 4000.03) * 0.14
             else 908.85);
          baseCalculo = grossIncome - inss;
          irpf =
            (if baseCalculo \<le> 2259.20 then 0
             else if baseCalculo \<le> 2826.65 then (baseCalculo * 0.075) - 169.44
             else if baseCalculo \<le> 3751.05 then (baseCalculo * 0.15) - 381.44
             else if baseCalculo \<le> 4664.68 then (baseCalculo * 0.225) - 662.77
             else (baseCalculo * 0.275) - 896.00)
      in \<lparr>inss = inss, irpf = irpf, net = grossIncome - inss - irpf\<rparr>)"

section \<open>Period reports (part\_000, ReportsView.getPeriodData)\<close>

datatype period = Monthly | Quarterly | Semi_annual | Annual

record period_row =
  label :: label_text
  income :: number
  expenses :: number

text \<open>The \<open>income\<close> and \<open>expenses\<close> fields every branch computes from its filtered list.\<close>

definition row_of :: "label_text \<Rightarrow> Transaction list \<Rightarrow> period_row" where
  "row_of l ts =
     \<lparr>label = l,
      income = sum_amounts64 (filter (\<lambda>t. type t = Income \<or> type t = Variable_income) ts),
      expenses =
        sum_amounts64 (filter (\<lambda>t. type t = Fixed_expense \<or> type t = Variable_expense) ts)\<rparr>"

text \<open>
  \<open>currentYear\<close> is \<open>getYear(new Date())\<close> and \<open>period\<close> the selected granularity; the
  getters of date-fns read the local date. A transaction whose date is the Invalid Date
  passes no filter: its month and year are NaN.
\<close>

definition getPeriodData ::
  "int \<Rightarrow> (string \<Rightarrow> Moment option) \<Rightarrow> int \<Rightarrow> period \<Rightarrow> Transaction list \<Rightarrow> period_row list"
  where
  "getPeriodData offset otherwise currentYear p transactions =
     (case p of
        Monthly \<Rightarrow>
          map (\<lambda>i.
            let monthTransactions = filter (\<lambda>t.
                  case newDate offset otherwise (date t) of None \<Rightarrow> False
                  | Some d \<Rightarrow> getMonth (local_date d) = i \<and> getYear (local_date d) = currentYear)
                  transactions
            in row_of (MMMM (month_of_index i)) monthTransactions) [0..<12]
      | Quarterly \<Rightarrow>
          map (\<lambda>i.
            let quarterTransactions = filter (\<lambda>t.
                  case newDate offset otherwise (date t) of None \<Rightarrow> False
                  | Some d \<Rightarrow>
                      getQuarter (local_date d) = i \<and> getYear (local_date d) = currentYear)
                  transactions
            in row_of (Trimestre i) quarterTransactions) [1..<5]
      | Semi_annual \<Rightarrow>
          map (\<lambda>i.
            let semesterTransactions = filter (\<lambda>t.
                  case newDate offset otherwise (date t) of None \<Rightarrow> False
                  | Some d \<Rightarrow>
                      let month = getMonth (local_date d)
                      in (if i = 1 then month < 6 else month \<ge> 6)
                         \<and> getYear (local_date d) = currentYear)
                  transactions
            in row_of (Semestre i) semesterTransactions) [1..<3]
      | Annual \<Rightarrow>
          (let annualTransactions = filter (\<lambda>t.
                 case newDate offset otherwise (date t) of None \<Rightarrow> False
                 | Some d \<Rightarrow> getYear (local_date d) = currentYear) transactions
           in [row_of (Ano currentYear) annualTransactions]))"

section \<open>Auxiliary functions of the proofs\<close>


definition is_expense :: "Transaction \<Rightarrow> bool" where
  "is_expense t = (type t = Fixed_expense \<or> type t = Variable_expense)"

definition is_income :: "Transaction \<Rightarrow> bool" where
  "is_income t = (type t = Income \<or> type t = Variable_income)"

text \<open>
  The analysis of the rounding: the spacing of the smallest binary64 numbers, the
  numbers that are multiples of it, the largest relative error of one rounding, the
  relative error that \<open>m\<close> roundings in a row can add up to, and what it means for a
  computed \<open>xh\<close> to be near an exact \<open>x\<close> of magnitude at most \<open>X\<close>.
\<close>

definition quantum :: rat where
  "quantum = 2 powi (- 1074)"

definition on_grid :: "rat \<Rightarrow> bool" where
  "on_grid x = (\<exists>k::int. x = of_int k * quantum)"

definition unit_roundoff :: rat where
  "unit_roundoff = 2 powi (- 53)"

definition gamma :: "nat \<Rightarrow> rat" where
  "gamma m = (1 + unit_roundoff) ^ m - 1"

definition approx :: "nat \<Rightarrow> rat \<Rightarrow> rat \<Rightarrow> rat \<Rightarrow> bool" where
  "approx m xh x X = (on_grid xh \<and> \<bar>xh - x\<bar> \<le> gamma m * X \<and> \<bar>x\<bar> \<le> X)"

text \<open>The double that the runtime reads for an amount, and a sum added up from the left.\<close>

definition double :: "Transaction \<Rightarrow> rat" where
  "double t = round64 (amount t)"

definition fl_sum :: "rat list \<Rightarrow> rat" where
  "fl_sum xs = foldl (\<lambda>s a. round64 (s + a)) 0 xs"

text \<open>
  A small ledger on which the functions are evaluated: a recurring salary and a recurring
  rent, a purchase, a purchase without a category, and a bonus dated in the year before.
\<close>

definition example_transactions :: "Transaction list" where
  "example_transactions =
     [\<lparr>id_field = 1, description = ''Salario'', amount = 5000, type = Income,
       category = ''Trabalho'', date = ''2025-03-01'', is_recurring = True,
       installments = Some 12, start_date = Some ''2025-01-01''\<rparr>,
      \<lparr>id_field = 2, description = ''Aluguel'', amount = 1500, type = Fixed_expense,
       category = ''Moradia'', date = ''2025-03-05'', is_recurring = True,
       installments = Some 12, start_date = Some ''2025-01-05''\<rparr>,
      \<lparr>id_field = 3, description = ''Mercado'', amount = 320.5, type = Variable_expense,
       category = ''Moradia'', date = ''2025-07-02'', is_recurring = False,
       installments = Some 1, start_date = Some ''2025-07-02''\<rparr>,
      \<lparr>id_field = 4, description = ''Presente'', amount = 99.9, type = Variable_expense,
       category = [], date = ''2025-07-02'', is_recurring = False,
       installments = Some 1, start_date = Some ''2025-07-02''\<rparr>,
      \<lparr>id_field = 5, description = ''Bonus'', amount = 800, type = Variable_income,
       category = ''Trabalho'', date = ''2024-12-20'', is_recurring = False,
       installments = Some 1, start_date = Some ''2024-12-20''\<rparr>]"

definition example_summary :: Summary where
  "example_summary =
     \<lparr>Summary.income = 5000, variable_income = 800, fixed = 1500, variable = 420.4,
      invested = 0\<rparr>"

text \<open>
  Three transactions of 0.3, 0.2 and 0.1, dated March, February and January 2025 in this
  order, of a given type, category by category, recurring.
\<close>

definition tenths :: "transaction_type \<Rightarrow> string \<Rightarrow> string \<Rightarrow> string \<Rightarrow> Transaction list" where
  "tenths ty c1 c2 c3 =
     [\<lparr>id_field = 1, description = ''a'', amount = 0.3, type = ty, category = c1,
       date = ''2025-03-15'', is_recurring = True, installments = Some 12,
       start_date = Some ''2025-03-15''\<rparr>,
      \<lparr>id_field = 2, description = ''b'', amount = 0.2, type = ty, category = c2,
       date = ''2025-02-15'', is_recurring = True, installments = Some 12,
       start_date = Some ''2025-02-15''\<rparr>,
      \<lparr>id_field = 3, description = ''c'', amount = 0.1, type = ty, category = c3,
       date = ''2025-01-15'', is_recurring = True, installments = Some 12,
       start_date = Some ''2025-01-15''\<rparr>]"

text \<open>One transaction of a given amount, type, category and date.\<close>

definition single :: "rat \<Rightarrow> transaction_type \<Rightarrow> string \<Rightarrow> string \<Rightarrow> Transaction" where
  "single a ty c d =
     \<lparr>id_field = 1, description = ''x'', amount = a, type = ty, category = c, date = d,
      is_recurring = True, installments = Some 1, start_date = Some d\<rparr>"

definition zero_summary :: Summary where
  "zero_summary =
     \<lparr>Summary.income = 0, variable_income = 0, fixed = 0, variable = 0, invested = 0\<rparr>"


section \<open>The tax estimator: properties\<close>






text \<open>
  Claim C1 (pension contribution non-decreasing and never above 908.85). The code at a
  gross income of 7786, inside the last marginal bracket, computes 908.859, which is above
  the flat 908.85 it returns from 7786.02 on: the contribution exceeds the cap and then
  falls back to it.
\<close>

theorem calculateTaxes_inss_above_cap:
  "inss (calculateTaxes 7786) = 908.859 \<and> inss (calculateTaxes 7787) = 908.85
   \<and> inss (calculateTaxes 7787) < inss (calculateTaxes 7786)"
  by (simp add: calculateTaxes_def Let_def)








text \<open>
  Claim C6 as stated (zero deductions and net equal to the gross income for every gross
  income that is zero or negative) fails below zero: the first bracket applies its 7.5%
  to a negative income as well.
\<close>

theorem calculateTaxes_negative_income:
  "calculateTaxes (- 100) = \<lparr>inss = - 7.5, irpf = 0, net = - 92.5\<rparr>"
  by (simp add: calculateTaxes_def Let_def)

text \<open>
  Claim C6, amended: a gross income that is zero or negative is not rejected; its income
  tax is 0, its pension contribution is 7.5% of the gross income (0 at zero, negative
  below) and the net is the gross income less that contribution.
\<close>

theorem calculateTaxes_nonpositive:
  assumes "g \<le> 0"
  shows "calculateTaxes g = \<lparr>inss = g * 0.075, irpf = 0, net = g - g * 0.075\<rparr>"
  using assms by (simp add: calculateTaxes_def Let_def)

theorem calculateTaxes_nonpositive_witness:
  "(- 100 :: rat) \<le> 0
   \<and> calculateTaxes (- 100) = \<lparr>inss = - 100 * 0.075, irpf = 0, net = - 100 - - 100 * 0.075\<rparr>"
  using calculateTaxes_nonpositive [of "- 100"] by simp


section \<open>The six-month projection: properties\<close>

lemma foldl_add_amount:
  "foldl (\<lambda>s t. s + amount t) a xs = a + sum_list (map amount xs)"
  by (induction xs arbitrary: a) simp_all

lemma sum_amounts_conv: "sum_amounts xs = sum_list (map amount xs)"
  by (simp add: sum_amounts_def foldl_add_amount)

lemma balance_projectionData:
  assumes "i < 6"
  shows "balance (projectionData today transactions summary ! i) =
     (sum_list (map amount (filter (\<lambda>t. is_recurring t
          \<and> (type t = Income \<or> type t = Variable_income)) transactions))
      - sum_list (map amount (filter (\<lambda>t. is_recurring t
          \<and> (type t = Fixed_expense \<or> type t = Variable_expense)) transactions)))
     * (of_nat i + 1)
     + (Summary.income summary + variable_income summary - fixed summary - variable summary)"
  using assms by (simp add: projectionData_def Let_def sum_amounts_conv del: upt_Suc)


text \<open>
  Claim C10: the figure shown as the one-year estimate is twice the sixth projected
  balance, that is twice the current net balance plus twelve times the monthly recurring
  difference; it equals the twelfth value of the linear projection exactly when the
  current net balance is 0.
\<close>

theorem estimativaEm1Ano_twice_sixth_month:
  assumes "recurringIncome = sum_list (map amount
      (filter (\<lambda>t. is_recurring t \<and> (type t = Income \<or> type t = Variable_income))
         transactions))"
    and "recurringExpense = sum_list (map amount
      (filter (\<lambda>t. is_recurring t \<and> (type t = Fixed_expense \<or> type t = Variable_expense))
         transactions))"
    and "currentNetBalance =
      Summary.income summary + variable_income summary - fixed summary - variable summary"
  shows "estimativaEm1Ano today transactions summary
        = 2 * balance (projectionData today transactions summary ! 5)
    \<and> estimativaEm1Ano today transactions summary
        = 2 * currentNetBalance + 12 * (recurringIncome - recurringExpense)
    \<and> (estimativaEm1Ano today transactions summary
          = (recurringIncome - recurringExpense) * 12 + currentNetBalance
        \<longleftrightarrow> currentNetBalance = 0)"
  using assms by (auto simp add: estimativaEm1Ano_def balance_projectionData algebra_simps)

theorem estimativaEm1Ano_twice_sixth_month_witness:
  "estimativaEm1Ano (Date 2025 Mar 10) example_transactions example_summary = 49759.2
   \<and> estimativaEm1Ano (Date 2025 Mar 10) example_transactions example_summary
       \<noteq> (5000 - 1500) * 12 + 3879.6"
proof -
  have h1: "(5000::rat) = sum_list (map amount
      (filter (\<lambda>t. is_recurring t \<and> (type t = Income \<or> type t = Variable_income))
         example_transactions))"
    by (simp add: example_transactions_def)
  have h2: "(1500::rat) = sum_list (map amount
      (filter (\<lambda>t. is_recurring t \<and> (type t = Fixed_expense \<or> type t = Variable_expense))
         example_transactions))"
    by (simp add: example_transactions_def)
  have h3: "(3879.6::rat) = Summary.income example_summary + variable_income example_summary
      - fixed example_summary - variable example_summary"
    by (simp add: example_summary_def)
  from estimativaEm1Ano_twice_sixth_month [OF h1 h2 h3, of "Date 2025 Mar 10"]
  show ?thesis by simp
qed



section \<open>Rounding to binary64: properties\<close>

lemma bits_nonneg: "0 \<le> bits n"
  by (induction n rule: bits.induct) (simp add: bits.simps)

lemma bits_pos: "0 < n \<Longrightarrow> 0 < bits n"
  using bits_nonneg [of "n div 2"] by (subst bits.simps) simp

lemma bits_bounds:
  "0 < n \<Longrightarrow> 2 ^ nat (bits n - 1) \<le> n \<and> n < 2 ^ nat (bits n)"
proof (induction n rule: bits.induct)
  case (1 n)
  show ?case
  proof (cases "n = 1")
    case True
    then show ?thesis by (simp add: bits.simps)
  next
    case False
    with "1.prems" have pos: "0 < n div 2" by simp
    with "1.IH" "1.prems" have IH: "2 ^ nat (bits (n div 2) - 1) \<le> n div 2"
      "n div 2 < 2 ^ nat (bits (n div 2))" by simp_all
    have b: "bits n = 1 + bits (n div 2)" using "1.prems" by (subst bits.simps) simp
    have bpos: "0 < bits (n div 2)" using pos by (rule bits_pos)
    have e1: "nat (bits n - 1) = Suc (nat (bits (n div 2) - 1))" using b bpos by simp
    have e2: "nat (bits n) = Suc (nat (bits (n div 2)))" using b bpos by simp
    show ?thesis unfolding e1 e2 using IH by simp linarith
  qed
qed

text \<open>The exponent that \<open>ilog2\<close> computes is the binary exponent of the value.\<close>

lemma ilog2_bounds:
  assumes "0 < x"
  shows "2 powi (ilog2 x) \<le> x" and "x < 2 powi (ilog2 x + 1)"
proof -
  obtain p q where pq: "quotient_of x = (p, q)" by (cases "quotient_of x")
  then have q: "0 < q" and x: "x = of_int p / of_int q"
    using quotient_of_denom_pos [OF pq] quotient_of_div [OF pq] by simp_all
  from assms x q have p: "0 < p" by (simp add: zero_less_divide_iff)
  let ?e = "bits p - bits q"
  have bpp: "0 < bits p" using p by (rule bits_pos)
  have bqp: "0 < bits q" using q by (rule bits_pos)
  have lo: "2 powi (?e - 1) \<le> x"
  proof -
    have bp: "(2::rat) ^ nat (bits p - 1) \<le> of_int p"
      using bits_bounds [OF p] by (metis of_int_le_iff of_int_numeral of_int_power)
    have bq: "of_int q \<le> (2::rat) ^ nat (bits q)"
      using bits_bounds [OF q] by (metis less_imp_le of_int_le_iff of_int_numeral of_int_power)
    have "?e - 1 = (bits p - 1) - bits q" by simp
    moreover have "(2::rat) powi ((bits p - 1) - bits q) = 2 powi (bits p - 1) / 2 powi (bits q)"
      by (rule power_int_diff) simp
    ultimately have "(2::rat) powi (?e - 1) = 2 powi (bits p - 1) / 2 powi (bits q)"
      by (simp only:)
    also have "\<dots> = 2 ^ nat (bits p - 1) / 2 ^ nat (bits q)"
      using bpp bits_nonneg [of q] by (simp add: power_int_nonneg_exp)
    also have "\<dots> \<le> of_int p / of_int q"
      using bp bq q p by (intro frac_le) simp_all
    finally show ?thesis using x by simp
  qed
  have hi: "x < 2 powi (?e + 1)"
  proof -
    have bp: "of_int p < (2::rat) ^ nat (bits p)"
      using bits_bounds [OF p] by (metis of_int_less_iff of_int_numeral of_int_power)
    have bq: "(2::rat) ^ nat (bits q - 1) \<le> of_int q"
      using bits_bounds [OF q] by (metis of_int_le_iff of_int_numeral of_int_power)
    have "of_int p / of_int q < (2::rat) ^ nat (bits p) / 2 ^ nat (bits q - 1)"
      using bp bq q p by (intro frac_less) simp_all
    also have "\<dots> = 2 powi (bits p) / 2 powi (bits q - 1)"
      using bpp bqp by (simp add: power_int_nonneg_exp)
    also have "\<dots> = 2 powi (bits p - (bits q - 1))"
      by (rule power_int_diff [symmetric]) simp
    also have "bits p - (bits q - 1) = ?e + 1" by simp
    finally show ?thesis using x by simp
  qed
  show "2 powi (ilog2 x) \<le> x"
    using lo pq by (simp add: ilog2_def Let_def)
  show "x < 2 powi (ilog2 x + 1)"
    using hi pq by (simp add: ilog2_def Let_def not_le)
qed

lemma ilog2_unique:
  assumes "2 powi e \<le> x" and "x < 2 powi (e + 1)"
  shows "ilog2 x = e"
proof -
  have pos: "0 < x" using assms(1) by (rule less_le_trans [rotated]) simp
  note b = ilog2_bounds [OF pos]
  have "\<not> ilog2 x + 1 \<le> e"
  proof
    assume "ilog2 x + 1 \<le> e"
    then have "(2::rat) powi (ilog2 x + 1) \<le> 2 powi e" by (intro power_int_increasing) simp_all
    with b(2) assms(1) show False by simp
  qed
  moreover have "\<not> e + 1 \<le> ilog2 x"
  proof
    assume "e + 1 \<le> ilog2 x"
    then have "(2::rat) powi (e + 1) \<le> 2 powi (ilog2 x)" by (intro power_int_increasing) simp_all
    with b(1) assms(2) show False by simp
  qed
  ultimately show ?thesis by simp
qed

text \<open>The value of \<open>round64\<close>, given the binary exponent of the argument.\<close>

lemma round64_at:
  assumes "2 powi e \<le> \<bar>x\<bar>" and "\<bar>x\<bar> < 2 powi (e + 1)"
  shows "round64 x
     = of_int (round_even (x / 2 powi (max e (- 1022) - 52))) * 2 powi (max e (- 1022) - 52)"
proof -
  have pos: "(0::rat) < 2 powi e" by simp
  have "x \<noteq> 0"
  proof
    assume "x = 0"
    with assms(1) have "2 powi e \<le> (0::rat)" by simp
    with pos show False by linarith
  qed
  then show ?thesis
    by (simp add: round64_def Let_def ilog2_unique [OF assms])
qed

lemma round_even_error: "\<bar>of_int (round_even y) - y\<bar> \<le> 1 / 2"
proof -
  have "of_int \<lfloor>y\<rfloor> \<le> y" "y < of_int \<lfloor>y\<rfloor> + 1" by linarith+
  then show ?thesis
    by (auto simp add: round_even_def Let_def)
qed

lemma round_even_of_int [simp]: "round_even (of_int k) = k"
  by (simp add: round_even_def)

lemma quantum_pos: "0 < quantum"
  by (simp only: quantum_def zero_less_power_int zero_less_numeral)

lemma quantum_scale:
  assumes "- 1022 \<le> e"
  shows "(2::rat) powi (e - 52) = of_int (2 ^ nat (e + 1022)) * quantum"
proof -
  have "(2::rat) powi (e + 1022) * 2 powi (- 1074) = 2 powi ((e + 1022) + (- 1074))"
    by (rule power_int_add [symmetric]) simp
  moreover have "(e + 1022) + (- 1074) = e - 52" by simp
  moreover have "(2::rat) powi (e + 1022) = of_int (2 ^ nat (e + 1022))"
    using assms by (simp add: power_int_nonneg_exp)
  ultimately show ?thesis by (simp only: quantum_def)
qed

lemma half_quantum:
  "1 / 2 * (2::rat) powi (E - 52) = unit_roundoff * 2 powi E"
proof -
  have "(2::rat) powi (- 53) * 2 powi E = 2 powi ((- 53) + E)"
    by (rule power_int_add [symmetric]) simp
  moreover have "(2::rat) powi (- 1) * 2 powi (E - 52) = 2 powi ((- 1) + (E - 52))"
    by (rule power_int_add [symmetric]) simp
  moreover have "(- 53) + E = (- 1) + (E - 52)" by simp
  moreover have "(2::rat) powi (- 1) = 1 / 2" by simp
  ultimately show ?thesis by (simp only: unit_roundoff_def)
qed

lemma unit_roundoff_pos: "0 < unit_roundoff"
  by (simp only: unit_roundoff_def zero_less_power_int zero_less_numeral)

text \<open>Every binary64 number is a multiple of the smallest one.\<close>

lemma round64_on_grid: "on_grid (round64 x)"
proof (cases "x = 0")
  case True
  then show ?thesis by (auto simp add: round64_def on_grid_def intro: exI [of _ 0])
next
  case False
  define e where "e = max (ilog2 \<bar>x\<bar>) (- 1022)"
  have "- 1022 \<le> e" by (simp add: e_def)
  from quantum_scale [OF this] have "round64 x
      = of_int (round_even (x / 2 powi (e - 52)) * 2 ^ nat (e + 1022)) * quantum"
    using False by (simp add: round64_def Let_def e_def [symmetric])
  then show ?thesis unfolding on_grid_def by blast
qed

text \<open>
  One rounding of a multiple of the smallest number changes it by at most the relative
  error \<open>unit_roundoff\<close>: half a unit in the last of 53 bits, and nothing at all below
  \<open>2 powi (- 1022)\<close>, where every multiple is a binary64 number.
\<close>

lemma round64_error:
  assumes "on_grid x"
  shows "\<bar>round64 x - x\<bar> \<le> unit_roundoff * \<bar>x\<bar>"
proof (cases "x = 0")
  case True
  then show ?thesis by (simp add: round64_def)
next
  case False
  define E where "E = ilog2 \<bar>x\<bar>"
  define e where "e = max E (- 1022)"
  define q :: rat where "q = 2 powi (e - 52)"
  have qpos: "0 < q" by (simp add: q_def)
  have r: "round64 x = of_int (round_even (x / q)) * q"
    using False by (simp add: round64_def Let_def E_def e_def q_def)
  show ?thesis
  proof (cases "- 1022 \<le> E")
    case True
    then have eE: "e = E" by (simp add: e_def)
    have "round64 x - x = (of_int (round_even (x / q)) - x / q) * q"
      using qpos by (simp add: r field_simps)
    then have "\<bar>round64 x - x\<bar> = \<bar>of_int (round_even (x / q)) - x / q\<bar> * q"
      using qpos by (simp add: abs_mult)
    also have "\<dots> \<le> 1 / 2 * q"
      using qpos round_even_error [of "x / q"] by (intro mult_right_mono) simp_all
    also have "\<dots> = unit_roundoff * 2 powi E"
      unfolding q_def eE by (rule half_quantum)
    also have "\<dots> \<le> unit_roundoff * \<bar>x\<bar>"
      using ilog2_bounds(1) [of "\<bar>x\<bar>"] False unit_roundoff_pos
      by (intro mult_left_mono) (simp_all add: E_def)
    finally show ?thesis .
  next
    case False
    then have "e = - 1022" by (simp add: e_def)
    then have q: "q = quantum" using quantum_scale [of "- 1022"] by (simp add: q_def)
    from assms obtain k :: int where "x = of_int k * q" unfolding on_grid_def q by blast
    then have "x / q = of_int k" using qpos by simp
    then have "round64 x = of_int k * q" by (simp only: r round_even_of_int)
    with \<open>x = of_int k * q\<close> have "round64 x = x" by simp
    then show ?thesis using unit_roundoff_pos by simp
  qed
qed


lemma floor_rat_numeral:
  "\<lfloor>numeral a / numeral b :: rat\<rfloor> = numeral a div numeral b"
  using floor_divide_of_int_eq [of "numeral a" "numeral b", where ?'a = rat] by simp


section \<open>Values of the functions on the example inputs\<close>

lemma parse_2025_01_01: "parseDateOnly ''2025-01-01'' = Some (Date 2025 Jan 1)"
  by (simp add: parseDateOnly_def digit_value_def month_of_index_def)

lemma parse_2026_01_01: "parseDateOnly ''2026-01-01'' = Some (Date 2026 Jan 1)"
  by (simp add: parseDateOnly_def digit_value_def month_of_index_def)

lemma parse_2025_01_31: "parseDateOnly ''2025-01-31'' = Some (Date 2025 Jan 31)"
  by (simp add: parseDateOnly_def digit_value_def month_of_index_def)

lemma newDate_2025_01_01_west:
  "newDate (- 180) otherwise ''2025-01-01'' = Some (Moment (Date 2024 Dec 31) 75600000)"
  by (simp add: newDate_def parse_2025_01_01 shiftMs_def shiftDays_def prevDay_def)

lemma newDate_2025_01_01_utc:
  "newDate 0 otherwise ''2025-01-01'' = Some (Moment (Date 2025 Jan 1) 0)"
  by (simp add: newDate_def parse_2025_01_01 shiftMs_def shiftDays_def)

lemma newDate_2025_01_01_east:
  "newDate 540 otherwise ''2025-01-01'' = Some (Moment (Date 2025 Jan 1) 32400000)"
  by (simp add: newDate_def parse_2025_01_01 shiftMs_def shiftDays_def)

lemma newDate_2026_01_01_west:
  "newDate (- 180) otherwise ''2026-01-01'' = Some (Moment (Date 2025 Dec 31) 75600000)"
  by (simp add: newDate_def parse_2026_01_01 shiftMs_def shiftDays_def prevDay_def)

lemma format_12_2024: "format_MM_yyyy (Date 2024 Dec k) = ''12/2024''"
  by (simp add: format_MM_yyyy_def addLeadingZeros_def getMonth_def getYear_def toString.simps)

lemma format_01_2025: "format_MM_yyyy (Date 2025 Jan k) = ''01/2025''"
  by (simp add: format_MM_yyyy_def addLeadingZeros_def getMonth_def getYear_def toString.simps)

lemma format_02_2025: "format_MM_yyyy (Date 2025 Feb k) = ''02/2025''"
  by (simp add: format_MM_yyyy_def addLeadingZeros_def getMonth_def getYear_def toString.simps)

lemma number_of_0: "number_of 0 = Finite 0"
  by (simp add: number_of_def round64_def)

lemma number_of_100: "number_of 100 = Finite 100"
proof -
  have "round64 100 = 100"
    by (subst round64_at [of 6]) (simp_all add: round_even_def Let_def floor_rat_numeral)
  then show ?thesis by (simp add: number_of_def)
qed

lemma upt_0_12: "[0..<12] = [0, 1, 2, 3, 4, 5, 6, 7, 8, 9, 10, 11]"
  by (simp add: upt_rec)

lemma upt_1_5: "[Suc 0..<5] = [1, 2, 3, 4]"
  by (simp add: upt_rec)

lemma upt_1_3: "[Suc 0..<3] = [1, 2]"
  by (simp add: upt_rec)

lemma upt_0_6: "[0..<6] = [0, 1, 2, 3, 4, 5]"
  by (simp add: upt_rec)


section \<open>The recurrence resolver: properties\<close>

text \<open>
  Claim C7 (with one installment the resolver returns the start date unchanged). In a
  time zone west of UTC the code returns the month before: the start date 2025-01-01
  is read as midnight UTC, which is the evening of 31 December 2024 in local time, and
  the resolver returns 12/2024. At and east of UTC it returns 01/2025.
\<close>

theorem getEndDate_one_installment_west_of_UTC:
  "getEndDate (- 180) Map.empty ''2025-01-01'' 1 = Inr ''12/2024''
   \<and> getEndDate 0 Map.empty ''2025-01-01'' 1 = Inr ''01/2025''
   \<and> getEndDate 540 Map.empty ''2025-01-01'' 1 = Inr ''01/2025''"
  by (simp add: getEndDate_def addMonthsMoment_def newDate_2025_01_01_west
      newDate_2025_01_01_utc newDate_2025_01_01_east format_12_2024 format_01_2025)


section \<open>Period reports: properties\<close>

lemma sum_amounts64_Nil: "sum_amounts64 [] = Finite 0"
  by (simp add: sum_amounts64_def)

lemma sum_amounts64_single_100: "sum_amounts64 [single 100 ty c d] = Finite 100"
  by (simp add: sum_amounts64_def single_def number_of_100)

text \<open>
  Claim C8 (a transaction dated outside the requested year is in no bucket). In a time
  zone west of UTC a transaction dated 2026-01-01 is read as 31 December 2025 in local
  time: the report of 2025 counts it in December, in the fourth quarter, in the second
  half and in the year, at every granularity.
\<close>

theorem getPeriodData_counts_next_year_west_of_UTC:
  "map income (getPeriodData (- 180) Map.empty 2025 Monthly
       [single 100 Income [] ''2026-01-01''])
     = [Finite 0, Finite 0, Finite 0, Finite 0, Finite 0, Finite 0, Finite 0, Finite 0,
        Finite 0, Finite 0, Finite 0, Finite 100]
   \<and> map income (getPeriodData (- 180) Map.empty 2025 Quarterly
       [single 100 Income [] ''2026-01-01''])
     = [Finite 0, Finite 0, Finite 0, Finite 100]
   \<and> map income (getPeriodData (- 180) Map.empty 2025 Semi_annual
       [single 100 Income [] ''2026-01-01''])
     = [Finite 0, Finite 100]
   \<and> map income (getPeriodData (- 180) Map.empty 2025 Annual
       [single 100 Income [] ''2026-01-01''])
     = [Finite 100]
   \<and> map income (getPeriodData (- 180) Map.empty 2025 Annual []) = [Finite 0]"
  by (simp add: getPeriodData_def row_of_def newDate_2026_01_01_west getMonth_def getYear_def
      getQuarter_def single_def sum_amounts64_def number_of_100 month_of_index_def
      upt_0_12 upt_1_5 upt_1_3)

end
